theory Spec2Isabelle
  imports Main
begin

section \<open>Data model\<close>

text \<open>
  The two source files are the \<open>cut\<close> handler of the editor (\<open>editOnCut.js\<close>) and the
  block component (\<open>DraftEditorBlock.react.js\<close>). The immutable value classes they read
  (\<open>SelectionState\<close>, \<open>ContentBlock\<close>, \<open>ContentState\<close>, \<open>EditorState\<close>) are required
  by the two files but are not among them. Their data is modelled as records whose
  fields carry the names of the getters the source calls.
\<close>

text \<open>
  Modelled from the spec: the class \<open>SelectionState\<close> is missing. A selection has an
  anchor and a focus point and a focus flag; it is collapsed when anchor and focus
  coincide; start and end are anchor and focus in document order, which the selection
  records in \<open>getIsBackward\<close> (the focus point comes first).
\<close>

record SelectionState =
  getAnchorKey :: string
  getAnchorOffset :: nat
  getFocusKey :: string
  getFocusOffset :: nat
  getIsBackward :: bool
  getHasFocus :: bool

definition isCollapsed :: "SelectionState \<Rightarrow> bool" where
  "isCollapsed s \<longleftrightarrow>
     getAnchorKey s = getFocusKey s \<and> getAnchorOffset s = getFocusOffset s"

definition getStartKey :: "SelectionState \<Rightarrow> string" where
  "getStartKey s = (if getIsBackward s then getFocusKey s else getAnchorKey s)"

definition getStartOffset :: "SelectionState \<Rightarrow> nat" where
  "getStartOffset s = (if getIsBackward s then getFocusOffset s else getAnchorOffset s)"

definition getEndKey :: "SelectionState \<Rightarrow> string" where
  "getEndKey s = (if getIsBackward s then getAnchorKey s else getFocusKey s)"

definition getEndOffset :: "SelectionState \<Rightarrow> nat" where
  "getEndOffset s = (if getIsBackward s then getAnchorOffset s else getFocusOffset s)"

text \<open>
  Modelled from the spec: the class \<open>ContentBlock\<close> is missing. A block has a key, a text
  and a type. Its style and entity ranges are read through the collaborators of the block
  component below.
\<close>

record ContentBlock =
  getKey :: string
  getText :: string
  getType :: string

text \<open>
  Modelled from the spec: the class \<open>ContentState\<close> is missing. A content is the ordered
  sequence of its blocks, each found by its key, and the selection that the mutation
  which produced the content leaves behind.
\<close>

record ContentState =
  getBlockMap :: "ContentBlock list"
  getSelectionAfter :: SelectionState

definition getBlockForKey :: "ContentState \<Rightarrow> string \<Rightarrow> ContentBlock option" where
  "getBlockForKey c k = find (\<lambda>b. getKey b = k) (getBlockMap c)"

fun blockBefore :: "ContentBlock list \<Rightarrow> string \<Rightarrow> ContentBlock option" where
  "blockBefore [] k = None"
| "blockBefore [a] k = None"
| "blockBefore (a # b # bs) k =
     (if getKey a = k then None
      else if getKey b = k then Some a
      else blockBefore (b # bs) k)"

definition getBlockBefore :: "ContentState \<Rightarrow> string \<Rightarrow> ContentBlock option" where
  "getBlockBefore c k = blockBefore (getBlockMap c) k"

text \<open>
  Modelled from the spec: the class \<open>EditorState\<close> is missing. An editor state owns the
  current content and selection, the undo and redo stacks and the force-selection flag.
\<close>

record EditorState =
  getCurrentContent :: ContentState
  getSelection :: SelectionState
  getUndoStack :: "ContentState list"
  getRedoStack :: "ContentState list"
  mustForceSelection :: bool

section \<open>Collaborators\<close>

text \<open>
  The functions of other modules that the two files call are parameters of the model:
  \<open>DraftModifier.removeRange\<close>, \<open>EditorState.forceSelection\<close>, \<open>EditorState.push\<close> and
  \<open>getFragmentFromSelection\<close> are pure functions of immutable values; the scroll queries
  read the document the editor is mounted in. A DOM node is a handle; a scroll parent is
  a node or the window.
\<close>

type_synonym node = nat

datatype scrollable = Window | Element node

record modules =
  DraftModifier_removeRange :: "ContentState \<Rightarrow> SelectionState \<Rightarrow> string \<Rightarrow> ContentState"
  EditorState_forceSelection :: "EditorState \<Rightarrow> SelectionState \<Rightarrow> EditorState"
  EditorState_push :: "EditorState \<Rightarrow> ContentState \<Rightarrow> string \<Rightarrow> EditorState"
  getFragmentFromSelection :: "EditorState \<Rightarrow> ContentBlock list"

record elementPosition =
  pos_x :: int
  pos_y :: int
  pos_width :: int
  pos_height :: int

record viewportDimensions =
  dim_width :: int
  dim_height :: int

text \<open>
  Coordinates and sizes are whole numbers of pixels (\<open>int\<close>); the arithmetic of the
  source on them is addition, subtraction and comparison with zero.
\<close>

record dom =
  Style_getScrollParent :: "node \<Rightarrow> scrollable"
  getScrollPosition :: "scrollable \<Rightarrow> int \<times> int"
  getElementPosition :: "node \<Rightarrow> elementPosition"
  getViewportDimensions :: viewportDimensions
  offsetHeight :: "node \<Rightarrow> int"
  offsetTop :: "node \<Rightarrow> int"
  Scroll_getTop :: "node \<Rightarrow> int"

section \<open>The cut handler\<close>

text \<open>
  \<open>editOnCut\<close> runs with \<open>this\<close> bound to the editor component. It reads
  \<open>this.props.editorState\<close> and the target of the event, and everything else it does is
  a call: on the event, on a module, or on a method of the component. The model returns
  these calls in the order the source makes them. A query is logged with its argument.
\<close>

datatype error = TypeError

datatype call =
    PreventDefault
  | GetScrollParent node
  | GetScrollPosition scrollable
  | GetFragmentFromSelection EditorState
  | SetClipboard "ContentBlock list"
  | SetRenderGuard
  | SetMode string
  | RestoreEditorDOM int int
  | RemoveRenderGuard
  | ExitCurrentMode
  | Update EditorState
  | Throw error

record DraftEditor =
  props_editorState :: EditorState

record SyntheticClipboardEvent =
  target :: node

text \<open>
  The arrow function handed to \<open>setTimeout\<close> closes over \<open>editorState\<close>, \<open>x\<close> and \<open>y\<close>.
  The model keeps the three captured values; \<open>timeout\<close> is the delay.
\<close>

record deferred =
  captured_editorState :: EditorState
  captured_x :: int
  captured_y :: int
  timeout :: nat

text \<open>
  The flag \<open>selectCanNotUndo\<close> of \<open>removeFragment\<close>. The conjunction is evaluated left to
  right and stops at the first false conjunct; \<open>getBlockForKey(startKey).getType()\<close> on a
  key with no block is a \<open>TypeError\<close>.
\<close>

definition selectCanNotUndo :: "EditorState \<Rightarrow> error + bool" where
  "selectCanNotUndo editorState =
     (let contentState = getCurrentContent editorState;
          selectionState = getSelection editorState;
          startKey = getStartKey selectionState;
          block = getBlockBefore contentState startKey
      in if block \<noteq> None
            \<and> startKey = getEndKey selectionState
            \<and> getStartOffset selectionState \<noteq> getEndOffset selectionState
         then (case getBlockForKey contentState startKey of
                 None \<Rightarrow> Inl TypeError
               | Some b \<Rightarrow> Inr (getType b = ''atomic''))
         else Inr False)"

definition removeFragment :: "modules \<Rightarrow> EditorState \<Rightarrow> error + EditorState" where
  "removeFragment m editorState =
     (case selectCanNotUndo editorState of
        Inl e \<Rightarrow> Inl e
      | Inr flag \<Rightarrow>
          (let newContent = DraftModifier_removeRange m
                 (getCurrentContent editorState) (getSelection editorState) ''forward'';
               editorState' =
                 (if flag
                  then EditorState_forceSelection m editorState (getSelectionAfter newContent)
                  else editorState)
           in Inr (EditorState_push m editorState' newContent ''remove-range'')))"

text \<open>
  The body of the deferred function. It runs with the component as it is when the timer
  fires, which the body uses only as the receiver of its calls.
\<close>

definition editOnCut_deferred :: "modules \<Rightarrow> DraftEditor \<Rightarrow> deferred \<Rightarrow> call list" where
  "editOnCut_deferred m this d =
     [RestoreEditorDOM (captured_x d) (captured_y d), RemoveRenderGuard, ExitCurrentMode] @
     (case removeFragment m (captured_editorState d) of
        Inl e \<Rightarrow> [Throw e]
      | Inr afterRemove \<Rightarrow>
          (let selectionState = getSelectionAfter (getCurrentContent afterRemove);
               afterSel = EditorState_forceSelection m afterRemove selectionState
           in [Update afterSel]))"

definition editOnCut ::
  "modules \<Rightarrow> dom \<Rightarrow> DraftEditor \<Rightarrow> SyntheticClipboardEvent \<Rightarrow> call list \<times> deferred option"
where
  "editOnCut m w this e =
     (let editorState = props_editorState this;
          selection = getSelection editorState
      in if isCollapsed selection then ([PreventDefault], None)
         else
           (let scrollParent = Style_getScrollParent w (target e);
                (x, y) = getScrollPosition w scrollParent;
                fragment = getFragmentFromSelection m editorState
            in ([GetScrollParent (target e), GetScrollPosition scrollParent,
                 GetFragmentFromSelection editorState, SetClipboard fragment,
                 SetRenderGuard, SetMode ''cut''],
                Some \<lparr>captured_editorState = editorState, captured_x = x, captured_y = y,
                      timeout = 0\<rparr>)))"

text \<open>The editor states that a sequence of calls commits through \<open>this.update\<close>.\<close>

fun committed :: "call list \<Rightarrow> EditorState list" where
  "committed [] = []"
| "committed (Update s # cs) = s # committed cs"
| "committed (c # cs) = committed cs"

section \<open>The block component\<close>

text \<open>
  The props of a block are compared by identity (\<open>!==\<close>) where they are objects: an
  object is a value at an address, and two references are identical when the addresses
  are. Values that the component only passes on (style map, style function, decorator
  component and decorator props) are of an arbitrary type \<open>'o\<close>. The props the three
  methods below never read (\<open>blockProps\<close>, \<open>startIndent\<close>, \<open>blockStyleFn\<close>) are left out.
\<close>

datatype 'a object = Object (address: nat) (contents: 'a)

datatype BidiDirection = LTR | RTL | NEUTRAL

record leaf =
  leaf_start :: nat
  leaf_end :: nat

record leafSet =
  leaves :: "leaf list"
  decoratorKey :: "string option"
  leafSet_start :: nat
  leafSet_end :: nat

record 'o decorator =
  getComponentForKey :: "string \<Rightarrow> 'o option"
  getPropsForKey :: "string \<Rightarrow> 'o"

record 'o Props =
  props_contentState :: ContentState
  props_block :: "ContentBlock object"
  props_customStyleMap :: 'o
  props_customStyleFn :: 'o
  props_tree :: "leafSet list object"
  props_selection :: SelectionState
  props_decorator :: "'o decorator option"
  props_forceSelection :: bool
  props_direction :: BidiDirection
  props_readOnly :: bool
  props_textAlign :: string

text \<open>The props of a rendered \<open>DraftEditorLeaf\<close> element, named as the attributes are
  (\<open>text_attr\<close> is the attribute \<open>text\<close>).\<close>

record 'o DraftEditorLeaf =
  key :: string
  offsetKey :: string
  blockKey :: string
  start :: nat
  textAlign :: string
  isEditing :: bool
  isEmpty :: bool
  readOnly :: bool
  selection :: "SelectionState option"
  forceSelection :: bool
  text_attr :: string
  styleSet :: "string list"
  customStyleMap :: 'o
  customStyleFn :: 'o
  isLast :: bool

text \<open>The props of a rendered decorator element; its children are the leaves it wraps.\<close>

record 'o DecoratorElement =
  dec_component :: 'o
  dec_decoratorProps :: 'o
  dec_contentState :: ContentState
  dec_decoratedText :: string
  dec_dir :: "string option"
  dec_key :: string
  dec_entityKey :: "string option"
  dec_offsetKey :: string
  dec_children :: "'o DraftEditorLeaf list"

datatype 'o child = Ungrouped "'o DraftEditorLeaf list" | Decorated "'o DecoratorElement"

text \<open>
  The functions of other modules that rendering calls: the offset-key encoder, the
  style and entity lookups of a block, and the two direction helpers.
\<close>

record renderEnv =
  DraftOffsetKey_encode :: "string \<Rightarrow> nat \<Rightarrow> nat \<Rightarrow> string"
  getInlineStyleAt :: "ContentBlock \<Rightarrow> nat \<Rightarrow> string list"
  getEntityAt :: "ContentBlock \<Rightarrow> nat \<Rightarrow> string option"
  UnicodeBidi_getDirection :: "string \<Rightarrow> BidiDirection"
  getHTMLDirIfDifferent :: "BidiDirection \<Rightarrow> BidiDirection \<Rightarrow> string option"

definition SCROLL_BUFFER :: int where
  "SCROLL_BUFFER = 10"

definition isBlockOnSelectionEdge :: "SelectionState \<Rightarrow> string \<Rightarrow> bool" where
  "isBlockOnSelectionEdge selection' key' \<longleftrightarrow>
     getAnchorKey selection' = key' \<or> getFocusKey selection' = key'"

definition updateTailCR :: "'o Props \<Rightarrow> 'o Props \<Rightarrow> bool" where
  "updateTailCR cp np =
     (let curEditing = (getHasFocus (props_selection cp) \<and> isCollapsed (props_selection cp)
            \<and> getStartKey (props_selection cp) = getKey (contents (props_block cp)));
          nextEditing = (getHasFocus (props_selection np) \<and> isCollapsed (props_selection np)
            \<and> getStartKey (props_selection np) = getKey (contents (props_block np)))
      in curEditing \<noteq> nextEditing)"

definition shouldComponentUpdate :: "'o Props \<Rightarrow> 'o Props \<Rightarrow> bool" where
  "shouldComponentUpdate props nextProps \<longleftrightarrow>
     props_textAlign props \<noteq> props_textAlign nextProps \<or>
     props_readOnly props \<noteq> props_readOnly nextProps \<or>
     address (props_block props) \<noteq> address (props_block nextProps) \<or>
     address (props_tree props) \<noteq> address (props_tree nextProps) \<or>
     updateTailCR props nextProps \<or>
     props_direction props \<noteq> props_direction nextProps \<or>
     (isBlockOnSelectionEdge (props_selection nextProps)
        (getKey (contents (props_block nextProps)))
      \<and> props_forceSelection nextProps)"

text \<open>
  \<open>componentDidMount\<close> runs on the mounted component: its props and the DOM node that
  \<open>ReactDOM.findDOMNode(this)\<close> returns. The result is the scroll calls it makes.
\<close>

record 'o DraftEditorBlock =
  props :: "'o Props"
  findDOMNode :: node

datatype scrollCall = Window_scrollTo int int | Scroll_setTop node int

definition componentDidMount :: "dom \<Rightarrow> 'o DraftEditorBlock \<Rightarrow> scrollCall list" where
  "componentDidMount w this =
     (let selection' = props_selection (props this);
          endKey = getEndKey selection'
      in if \<not> getHasFocus selection' \<or> endKey \<noteq> getKey (contents (props_block (props this)))
         then []
         else
           (let blockNode = findDOMNode this;
                scrollParent = Style_getScrollParent w blockNode;
                scrollPosition = getScrollPosition w scrollParent
            in case scrollParent of
                 Window \<Rightarrow>
                   (let nodePosition = getElementPosition w blockNode;
                        nodeBottom = pos_y nodePosition + pos_height nodePosition;
                        viewportHeight = dim_height (getViewportDimensions w);
                        scrollDelta = nodeBottom - viewportHeight
                    in if scrollDelta > 0
                       then [Window_scrollTo (fst scrollPosition)
                               (snd scrollPosition + scrollDelta + SCROLL_BUFFER)]
                       else [])
               | Element parent \<Rightarrow>
                   (let blockBottom = offsetHeight w blockNode + offsetTop w blockNode;
                        scrollBottom = offsetHeight w parent + snd scrollPosition;
                        scrollDelta = blockBottom - scrollBottom
                    in if scrollDelta > 0
                       then [Scroll_setTop parent
                               (Scroll_getTop w parent + scrollDelta + SCROLL_BUFFER)]
                       else [])))"

text \<open>
  \<open>text.slice(start, end)\<close> on offsets that are not negative: the characters from
  \<open>start\<close> up to, not including, \<open>end\<close>, both cut at the length of the text, and nothing
  when \<open>end\<close> is not after \<open>start\<close>.
\<close>

definition slice :: "string \<Rightarrow> nat \<Rightarrow> nat \<Rightarrow> string" where
  "slice t s e = take (e - s) (drop s t)"

definition renderLeaf ::
  "renderEnv \<Rightarrow> 'o Props \<Rightarrow> nat \<Rightarrow> int \<Rightarrow> int \<Rightarrow> nat \<Rightarrow> leaf \<Rightarrow> 'o DraftEditorLeaf"
where
  "renderLeaf env p ii lastLeafSet lastLeaf jj lf =
     (let block = contents (props_block p);
          blockKey' = getKey block;
          text' = getText block;
          hasSelection = isBlockOnSelectionEdge (props_selection p) blockKey';
          offsetKey' = DraftOffsetKey_encode env blockKey' ii jj;
          start' = leaf_start lf;
          end' = leaf_end lf
      in \<lparr>key = offsetKey',
          offsetKey = offsetKey',
          blockKey = blockKey',
          start = start',
          textAlign = props_textAlign p,
          isEditing = (getHasFocus (props_selection p) \<and> isCollapsed (props_selection p)
                       \<and> getStartKey (props_selection p) = blockKey'),
          isEmpty = (length text' = 0 \<and> \<not> props_readOnly p),
          readOnly = props_readOnly p,
          selection = (if hasSelection then Some (props_selection p) else None),
          forceSelection = props_forceSelection p,
          text_attr = slice text' start' end',
          styleSet = getInlineStyleAt env block start',
          customStyleMap = props_customStyleMap p,
          customStyleFn = props_customStyleFn p,
          isLast = (int ii = lastLeafSet \<and> int jj = lastLeaf)\<rparr>)"

text \<open>
  One iteration of the outer \<open>map\<close> of \<open>_renderChildren\<close>. In the decorated branch
  \<open>leavesForLeafSet.first().get('start')\<close> on a leaf set with no leaves is a
  \<open>TypeError\<close>.
\<close>

definition renderLeafSet ::
  "renderEnv \<Rightarrow> 'o Props \<Rightarrow> nat \<Rightarrow> leafSet \<Rightarrow> error + 'o child"
where
  "renderLeafSet env p ii ls =
     (let block = contents (props_block p);
          blockKey' = getKey block;
          text' = getText block;
          lastLeafSet = int (length (contents (props_tree p))) - 1;
          leavesForLeafSet = leaves ls;
          lastLeaf = int (length leavesForLeafSet) - 1;
          leaves' = map (\<lambda>(jj, lf). renderLeaf env p ii lastLeafSet lastLeaf jj lf)
                      (zip [0..<length leavesForLeafSet] leavesForLeafSet)
      in case decoratorKey ls of
           None \<Rightarrow> Inr (Ungrouped leaves')
         | Some decoratorKey' \<Rightarrow>
             (case props_decorator p of
                None \<Rightarrow> Inr (Ungrouped leaves')
              | Some decorator' \<Rightarrow>
                  (case getComponentForKey decorator' decoratorKey' of
                     None \<Rightarrow> Inr (Ungrouped leaves')
                   | Some DecoratorComponent \<Rightarrow>
                       (case leavesForLeafSet of
                          [] \<Rightarrow> Inl TypeError
                        | first # rest \<Rightarrow>
                            (let decoratorProps = getPropsForKey decorator' decoratorKey';
                                 decoratorOffsetKey = DraftOffsetKey_encode env blockKey' ii 0;
                                 decoratedText = slice text' (leaf_start first)
                                                   (leaf_end (last leavesForLeafSet));
                                 dir = getHTMLDirIfDifferent env
                                         (UnicodeBidi_getDirection env decoratedText)
                                         (props_direction p)
                             in Inr (Decorated
                                  \<lparr>dec_component = DecoratorComponent,
                                   dec_decoratorProps = decoratorProps,
                                   dec_contentState = props_contentState p,
                                   dec_decoratedText = decoratedText,
                                   dec_dir = dir,
                                   dec_key = decoratorOffsetKey,
                                   dec_entityKey = getEntityAt env block (leafSet_start ls),
                                   dec_offsetKey = decoratorOffsetKey,
                                   dec_children = leaves'\<rparr>))))))"

text \<open>An exception in one iteration ends the whole \<open>map\<close>.\<close>

fun collect :: "(error + 'a) list \<Rightarrow> error + 'a list" where
  "collect [] = Inr []"
| "collect (Inl e # rs) = Inl e"
| "collect (Inr x # rs) = (case collect rs of Inl e \<Rightarrow> Inl e | Inr xs \<Rightarrow> Inr (x # xs))"

definition renderChildren :: "renderEnv \<Rightarrow> 'o Props \<Rightarrow> error + 'o child list" where
  "renderChildren env p =
     collect (map (\<lambda>(ii, ls). renderLeafSet env p ii ls)
                (zip [0..<length (contents (props_tree p))] (contents (props_tree p))))"

text \<open>The leaf elements of a render result, ungrouped and wrapped alike, in order.\<close>

fun leavesOf :: "'o child \<Rightarrow> 'o DraftEditorLeaf list" where
  "leavesOf (Ungrouped ls) = ls"
| "leavesOf (Decorated d) = dec_children d"

definition renderedLeaves :: "'o child list \<Rightarrow> 'o DraftEditorLeaf list" where
  "renderedLeaves cs = concat (map leavesOf cs)"


text \<open>
  The leaf elements that one iteration of the outer \<open>map\<close> builds for its leaf set
  (the inner \<open>map\<close>), whichever way the iteration then returns them.
\<close>

definition leavesFor :: "renderEnv \<Rightarrow> 'o Props \<Rightarrow> nat \<Rightarrow> leafSet \<Rightarrow> 'o DraftEditorLeaf list" where
  "leavesFor env p ii ls =
     map (\<lambda>(jj, lf). renderLeaf env p ii (int (length (contents (props_tree p))) - 1)
                       (int (length (leaves ls)) - 1) jj lf)
       (zip [0..<length (leaves ls)] (leaves ls))"

section \<open>Example instances\<close>

text \<open>
  Concrete collaborators and inputs, on which the theorems below are instantiated.

  Modelled from the spec: \<open>DraftModifier.removeRange\<close>, \<open>getFragmentFromSelection\<close>,
  \<open>EditorState.push\<close> and \<open>EditorState.forceSelection\<close> are missing. The instances
  follow the contracts of the mutation pipeline: removal splices the selected text out
  and leaves a collapsed selection at the start of the removed range; the fragment is the
  selected slice of the blocks; \<open>push\<close> puts the previous content on the undo stack,
  clears the redo stack and takes content and selection from the new content;
  \<open>forceSelection\<close> replaces the selection and sets the force flag.
\<close>

definition example_removeRange :: "ContentState \<Rightarrow> SelectionState \<Rightarrow> string \<Rightarrow> ContentState" where
  "example_removeRange c s direction' =
     (let startKey = getStartKey s; endKey = getEndKey s;
          startOffset = getStartOffset s; endOffset = getEndOffset s;
          before = takeWhile (\<lambda>b. getKey b \<noteq> startKey) (getBlockMap c);
          fromStart = dropWhile (\<lambda>b. getKey b \<noteq> startKey) (getBlockMap c);
          fromEnd = dropWhile (\<lambda>b. getKey b \<noteq> endKey) fromStart
      in case (fromStart, fromEnd) of
           (startBlock # _, endBlock # after) \<Rightarrow>
             \<lparr>getBlockMap = before @
                [startBlock\<lparr>getText := take startOffset (getText startBlock)
                                       @ drop endOffset (getText endBlock)\<rparr>] @ after,
              getSelectionAfter = s\<lparr>getAnchorKey := startKey, getAnchorOffset := startOffset,
                getFocusKey := startKey, getFocusOffset := startOffset,
                getIsBackward := False\<rparr>\<rparr>
         | _ \<Rightarrow> c)"

definition example_getFragment :: "EditorState \<Rightarrow> ContentBlock list" where
  "example_getFragment es =
     (let s = getSelection es;
          startKey = getStartKey s; endKey = getEndKey s;
          startOffset = getStartOffset s; endOffset = getEndOffset s;
          fromStart = dropWhile (\<lambda>b. getKey b \<noteq> startKey)
                        (getBlockMap (getCurrentContent es));
          fromEnd = dropWhile (\<lambda>b. getKey b \<noteq> endKey) fromStart
      in case (fromStart, fromEnd) of
           (startBlock # rest, endBlock # _) \<Rightarrow>
             if startKey = endKey
             then [startBlock\<lparr>getText := take (endOffset - startOffset)
                                             (drop startOffset (getText startBlock))\<rparr>]
             else [startBlock\<lparr>getText := drop startOffset (getText startBlock)\<rparr>]
                  @ takeWhile (\<lambda>b. getKey b \<noteq> endKey) rest
                  @ [endBlock\<lparr>getText := take endOffset (getText endBlock)\<rparr>]
         | _ \<Rightarrow> [])"

definition example_push :: "EditorState \<Rightarrow> ContentState \<Rightarrow> string \<Rightarrow> EditorState" where
  "example_push es c changeType =
     es\<lparr>getUndoStack := getCurrentContent es # getUndoStack es,
        getRedoStack := [],
        getCurrentContent := c,
        getSelection := getSelectionAfter c\<rparr>"

definition example_forceSelection :: "EditorState \<Rightarrow> SelectionState \<Rightarrow> EditorState" where
  "example_forceSelection es s = es\<lparr>getSelection := s, mustForceSelection := True\<rparr>"

definition example_modules :: modules where
  "example_modules =
     \<lparr>DraftModifier_removeRange = example_removeRange,
      EditorState_forceSelection = example_forceSelection,
      EditorState_push = example_push,
      getFragmentFromSelection = example_getFragment\<rparr>"

text \<open>
  A document in which node 1 is the editor, scrolled inside node 7 to (0, 40), and node
  2 is a block in the window, which is scrolled to (0, 100) and 600 high.
\<close>

definition example_dom :: dom where
  "example_dom =
     \<lparr>Style_getScrollParent = (\<lambda>n. if n = 1 then Element 7 else Window),
      getScrollPosition = (\<lambda>p. case p of Window \<Rightarrow> (0, 100) | Element _ \<Rightarrow> (0, 40)),
      getElementPosition = (\<lambda>n. \<lparr>pos_x = 0, pos_y = 580, pos_width = 300, pos_height = 50\<rparr>),
      getViewportDimensions = \<lparr>dim_width = 800, dim_height = 600\<rparr>,
      offsetHeight = (\<lambda>n. if n = 7 then 200 else 50),
      offsetTop = (\<lambda>n. 230),
      Scroll_getTop = (\<lambda>n. 40)\<rparr>"

definition sel :: "string \<Rightarrow> nat \<Rightarrow> string \<Rightarrow> nat \<Rightarrow> SelectionState" where
  "sel ak ao fk fo =
     \<lparr>getAnchorKey = ak, getAnchorOffset = ao, getFocusKey = fk, getFocusOffset = fo,
      getIsBackward = False, getHasFocus = True\<rparr>"

definition editorStateOf :: "ContentBlock list \<Rightarrow> SelectionState \<Rightarrow> EditorState" where
  "editorStateOf bs s =
     \<lparr>getCurrentContent = \<lparr>getBlockMap = bs, getSelectionAfter = s\<rparr>,
      getSelection = s, getUndoStack = [], getRedoStack = [], mustForceSelection = False\<rparr>"

definition block_abc :: ContentBlock where
  "block_abc = \<lparr>getKey = ''a'', getText = ''abc'', getType = ''unstyled''\<rparr>"

definition block_image :: ContentBlock where
  "block_image = \<lparr>getKey = ''i'', getText = '' '', getType = ''atomic''\<rparr>"

text \<open>The block \<open>abc\<close> with the caret at offset 2, and with offsets 1 to 3 selected.\<close>

definition es_caret :: EditorState where
  "es_caret = editorStateOf [block_abc] (sel ''a'' 2 ''a'' 2)"

definition es_range :: EditorState where
  "es_range = editorStateOf [block_abc] (sel ''a'' 1 ''a'' 3)"

text \<open>
  An atomic block with its one character selected: as the first block of the content,
  and after the block \<open>abc\<close>.
\<close>

definition es_atomic_first :: EditorState where
  "es_atomic_first = editorStateOf [block_image, block_abc] (sel ''i'' 0 ''i'' 1)"

definition es_atomic_second :: EditorState where
  "es_atomic_second = editorStateOf [block_abc, block_image] (sel ''i'' 0 ''i'' 1)"

text \<open>
  Collaborators of rendering: offset keys join block key and the two indices (below
  ten) with dashes; no styles, no entities; every text is left-to-right.
\<close>

definition example_env :: renderEnv where
  "example_env =
     \<lparr>DraftOffsetKey_encode =
        (\<lambda>k ii jj. k @ ''-'' @ [''0123456789'' ! ii] @ ''-'' @ [''0123456789'' ! jj]),
      getInlineStyleAt = (\<lambda>b i. []),
      getEntityAt = (\<lambda>b i. None),
      UnicodeBidi_getDirection = (\<lambda>t. LTR),
      getHTMLDirIfDifferent = (\<lambda>d other. if d = other then None else Some ''ltr'')\<rparr>"

text \<open>A decorator that has a component for the key \<open>0\<close> only.\<close>

definition example_decorator :: "string decorator" where
  "example_decorator =
     \<lparr>getComponentForKey = (\<lambda>k. if k = ''0'' then Some ''Link'' else None),
      getPropsForKey = (\<lambda>k. ''href'')\<rparr>"

text \<open>
  The tree of the block \<open>abc\<close>: \<open>a\<close> outside any decorator, \<open>b\<close> and \<open>c\<close> as two
  leaves under the decorator key \<open>0\<close>.
\<close>

definition tree_abc :: "leafSet list" where
  "tree_abc =
     [\<lparr>leaves = [\<lparr>leaf_start = 0, leaf_end = 1\<rparr>], decoratorKey = None,
       leafSet_start = 0, leafSet_end = 1\<rparr>,
      \<lparr>leaves = [\<lparr>leaf_start = 1, leaf_end = 2\<rparr>, \<lparr>leaf_start = 2, leaf_end = 3\<rparr>],
       decoratorKey = Some ''0'', leafSet_start = 1, leafSet_end = 3\<rparr>]"

definition propsOf ::
  "ContentBlock object \<Rightarrow> leafSet list object \<Rightarrow> SelectionState \<Rightarrow> string Props"
where
  "propsOf b t s =
     \<lparr>props_contentState = \<lparr>getBlockMap = [contents b], getSelectionAfter = s\<rparr>,
      props_block = b,
      props_customStyleMap = ''styles'',
      props_customStyleFn = ''fn'',
      props_tree = t,
      props_selection = s,
      props_decorator = Some example_decorator,
      props_forceSelection = False,
      props_direction = LTR,
      props_readOnly = False,
      props_textAlign = ''left''\<rparr>"

text \<open>The block \<open>abc\<close> with the caret in it, and with the caret in another block.\<close>

definition props_abc :: "string Props" where
  "props_abc = propsOf (Object 1 block_abc) (Object 2 tree_abc) (sel ''a'' 2 ''a'' 2)"

definition props_abc_elsewhere :: "string Props" where
  "props_abc_elsewhere = propsOf (Object 1 block_abc) (Object 2 tree_abc) (sel ''z'' 0 ''z'' 0)"

text \<open>An empty block with one empty leaf, in a read-only editor.\<close>

definition props_empty_readOnly :: "string Props" where
  "props_empty_readOnly =
     (propsOf (Object 3 \<lparr>getKey = ''e'', getText = [], getType = ''unstyled''\<rparr>)
        (Object 4 [\<lparr>leaves = [\<lparr>leaf_start = 0, leaf_end = 0\<rparr>], decoratorKey = None,
                    leafSet_start = 0, leafSet_end = 0\<rparr>])
        (sel ''e'' 0 ''e'' 0))
     \<lparr>props_readOnly := True\<rparr>"

section \<open>Properties of the cut handler\<close>

text \<open>
  C1. When the selection of the editor state is collapsed, the cut handler calls
  \<open>preventDefault\<close> on the event and returns: it makes no other call (no fragment is
  extracted, the clipboard is not written, neither the render guard nor the mode is set)
  and no deferred function is scheduled.
\<close>

theorem C1_collapsed_cut_only_prevents_default:
  assumes "isCollapsed (getSelection (props_editorState this))"
  shows "editOnCut m w this e = ([PreventDefault], None)"
  using assms by (simp add: editOnCut_def)

theorem C1_witness:
  "isCollapsed (getSelection (props_editorState \<lparr>props_editorState = es_caret\<rparr>)) \<and>
   editOnCut example_modules example_dom \<lparr>props_editorState = es_caret\<rparr> \<lparr>target = 1\<rparr>
     = ([PreventDefault], None)"
proof -
  have c: "isCollapsed (getSelection (props_editorState \<lparr>props_editorState = es_caret\<rparr>))"
    by (simp add: es_caret_def editorStateOf_def sel_def isCollapsed_def)
  from C1_collapsed_cut_only_prevents_default [OF c] c show ?thesis by simp
qed


subsection \<open>Removal never fails\<close>

text \<open>
  A key that has a block before it has a block itself, so the lookup that
  \<open>removeFragment\<close> dereferences is never empty where the source reaches it.
\<close>

lemma blockBefore_Some_find:
  "blockBefore bs k = Some a \<Longrightarrow> \<exists>b. find (\<lambda>b. getKey b = k) bs = Some b"
  by (induction bs k rule: blockBefore.induct) (auto split: if_splits)

lemma selectCanNotUndo_no_error: "selectCanNotUndo es \<noteq> Inl e"
  by (auto simp: selectCanNotUndo_def Let_def getBlockBefore_def getBlockForKey_def
      dest: blockBefore_Some_find split: option.splits)

lemma removeFragment_eq:
  "removeFragment m es =
     Inr (EditorState_push m
            (if selectCanNotUndo es = Inr True
             then EditorState_forceSelection m es
                    (getSelectionAfter (DraftModifier_removeRange m
                       (getCurrentContent es) (getSelection es) ''forward''))
             else es)
            (DraftModifier_removeRange m (getCurrentContent es) (getSelection es) ''forward'')
            ''remove-range'')"
proof (cases "selectCanNotUndo es")
  case (Inl e)
  then show ?thesis using selectCanNotUndo_no_error by blast
next
  case (Inr flag)
  then show ?thesis by (simp add: removeFragment_def Let_def)
qed

lemma selectCanNotUndo_first_block:
  "getBlockBefore (getCurrentContent es) (getStartKey (getSelection es)) = None
     \<Longrightarrow> selectCanNotUndo es = Inr False"
  by (simp add: selectCanNotUndo_def Let_def)

lemma editOnCut_captures_editorState:
  "snd (editOnCut m w this e) = Some d \<Longrightarrow> captured_editorState d = props_editorState this"
  by (auto simp: editOnCut_def Let_def split: if_splits prod.splits)

lemma committed_editOnCut_deferred:
  "committed (editOnCut_deferred m later d) =
     (case removeFragment m (captured_editorState d) of
        Inl e \<Rightarrow> []
      | Inr afterRemove \<Rightarrow>
          [EditorState_forceSelection m afterRemove
             (getSelectionAfter (getCurrentContent afterRemove))])"
  by (simp add: editOnCut_deferred_def Let_def split: sum.splits)

subsection \<open>The deferred recovery\<close>

text \<open>
  C2. When the selection is not collapsed the handler schedules a deferred function, and
  running it (on the component in whatever state it then is) makes four calls in this
  order: \<open>restoreEditorDOM\<close> with the scroll offset read from the scroll parent of the
  target before the native cut, \<open>removeRenderGuard\<close>, \<open>exitCurrentMode\<close>, and
  \<open>update\<close> with \<open>forceSelection(afterRemove, afterRemove.content.selectionAfter)\<close>.
  Here \<open>afterRemove\<close> is \<open>removeRange\<close> of the content and selection of the editor state
  the handler started from, with direction \<open>forward\<close>, pushed with the change type
  \<open>remove-range\<close>; it is pushed onto that editor state, or onto that editor state with
  the selection forced when \<open>selectCanNotUndo\<close> is set.
\<close>

theorem C2_deferred_restores_then_commits:
  fixes m w this e later
  defines "es \<equiv> props_editorState this"
  defines "pos \<equiv> getScrollPosition w (Style_getScrollParent w (target e))"
  defines "newContent \<equiv>
    DraftModifier_removeRange m (getCurrentContent es) (getSelection es) ''forward''"
  defines "afterRemove \<equiv>
    EditorState_push m
      (if selectCanNotUndo es = Inr True
       then EditorState_forceSelection m es (getSelectionAfter newContent)
       else es)
      newContent ''remove-range''"
  assumes "\<not> isCollapsed (getSelection es)"
  shows "\<exists>d. snd (editOnCut m w this e) = Some d \<and>
     editOnCut_deferred m later d =
       [RestoreEditorDOM (fst pos) (snd pos), RemoveRenderGuard, ExitCurrentMode,
        Update (EditorState_forceSelection m afterRemove
                  (getSelectionAfter (getCurrentContent afterRemove)))]"
proof -
  obtain x y where xy: "pos = (x, y)" by (cases pos)
  let ?d = "\<lparr>captured_editorState = es, captured_x = x, captured_y = y, timeout = 0\<rparr>"
  have scheduled: "snd (editOnCut m w this e) = Some ?d"
    using assms(5) xy by (simp add: editOnCut_def es_def pos_def Let_def)
  have run: "editOnCut_deferred m later ?d =
       [RestoreEditorDOM x y, RemoveRenderGuard, ExitCurrentMode,
        Update (EditorState_forceSelection m afterRemove
                  (getSelectionAfter (getCurrentContent afterRemove)))]"
    by (simp add: editOnCut_deferred_def removeFragment_eq afterRemove_def newContent_def
        Let_def)
  from scheduled run xy show ?thesis by simp
qed

theorem C2_witness:
  "\<not> isCollapsed (getSelection (props_editorState \<lparr>props_editorState = es_range\<rparr>)) \<and>
   (\<exists>d. snd (editOnCut example_modules example_dom \<lparr>props_editorState = es_range\<rparr>
              \<lparr>target = 1\<rparr>) = Some d \<and>
     editOnCut_deferred example_modules \<lparr>props_editorState = es_caret\<rparr> d =
       [RestoreEditorDOM 0 40, RemoveRenderGuard, ExitCurrentMode,
        Update
          \<lparr>getCurrentContent =
             \<lparr>getBlockMap = [\<lparr>getKey = ''a'', getText = ''a'', getType = ''unstyled''\<rparr>],
              getSelectionAfter = sel ''a'' 1 ''a'' 1\<rparr>,
           getSelection = sel ''a'' 1 ''a'' 1,
           getUndoStack = [getCurrentContent es_range],
           getRedoStack = [],
           mustForceSelection = True\<rparr>])"
proof -
  have nc: "\<not> isCollapsed (getSelection (props_editorState \<lparr>props_editorState = es_range\<rparr>))"
    by (simp add: es_range_def editorStateOf_def sel_def isCollapsed_def)
  from C2_deferred_restores_then_commits [OF nc, of example_modules example_dom
      "\<lparr>target = 1\<rparr>" "\<lparr>props_editorState = es_caret\<rparr>"] nc
  show ?thesis
    by (simp add: selectCanNotUndo_def getBlockBefore_def
        example_modules_def example_dom_def example_push_def
        example_forceSelection_def example_removeRange_def es_range_def editorStateOf_def
        sel_def block_abc_def getStartKey_def getEndKey_def getStartOffset_def
        getEndOffset_def Let_def)
qed

text \<open>
  The claim C3 as stated fails when the atomic block is the first block of the content:
  \<open>removeFragment\<close> asks for the block before the start key first, and with none there
  the flag stays clear and the editor state is pushed as it is.
\<close>

theorem C3_counterexample:
  "getStartKey (getSelection es_atomic_first) = getEndKey (getSelection es_atomic_first) \<and>
   getStartOffset (getSelection es_atomic_first) = 0 \<and>
   getEndOffset (getSelection es_atomic_first) = 1 \<and>
   getBlockForKey (getCurrentContent es_atomic_first)
     (getStartKey (getSelection es_atomic_first)) = Some block_image \<and>
   getType block_image = ''atomic'' \<and>
   selectCanNotUndo es_atomic_first = Inr False \<and>
   removeFragment example_modules es_atomic_first =
     Inr (example_push es_atomic_first
            (example_removeRange (getCurrentContent es_atomic_first)
               (getSelection es_atomic_first) ''forward'')
            ''remove-range'') \<and>
   mustForceSelection (projr (removeFragment example_modules es_atomic_first)) = False"
  by (simp add: selectCanNotUndo_def removeFragment_def example_modules_def example_push_def
      es_atomic_first_def editorStateOf_def sel_def block_image_def block_abc_def
      getBlockBefore_def getBlockForKey_def getStartKey_def getEndKey_def
      getStartOffset_def getEndOffset_def Let_def)

text \<open>
  C3 (amended). When start and end of the selection lie in the same block at different
  offsets, that block is of type \<open>atomic\<close>, and some block precedes it in the content,
  \<open>removeFragment\<close> sets \<open>selectCanNotUndo\<close> and forces the selection of the editor
  state to \<open>newContent.selectionAfter\<close> before it pushes the new content.
\<close>

theorem C3_atomic_cut_after_a_block_forces_selection:
  fixes m es b
  defines "s \<equiv> getSelection es"
  defines "c \<equiv> getCurrentContent es"
  defines "newContent \<equiv> DraftModifier_removeRange m c s ''forward''"
  assumes "getStartKey s = getEndKey s"
    and "getStartOffset s \<noteq> getEndOffset s"
    and "getBlockForKey c (getStartKey s) = Some b"
    and "getType b = ''atomic''"
    and "getBlockBefore c (getStartKey s) \<noteq> None"
  shows "selectCanNotUndo es = Inr True \<and>
         removeFragment m es =
           Inr (EditorState_push m
                  (EditorState_forceSelection m es (getSelectionAfter newContent))
                  newContent ''remove-range'')"
proof -
  have flag: "selectCanNotUndo es = Inr True"
    using assms(4-8) by (simp add: selectCanNotUndo_def s_def c_def Let_def)
  then show ?thesis
    by (simp add: removeFragment_def newContent_def s_def c_def Let_def)
qed

theorem C3_witness:
  "selectCanNotUndo es_atomic_second = Inr True \<and>
   removeFragment example_modules es_atomic_second =
     Inr \<lparr>getCurrentContent =
            \<lparr>getBlockMap = [block_abc, block_image\<lparr>getText := []\<rparr>],
             getSelectionAfter = sel ''i'' 0 ''i'' 0\<rparr>,
          getSelection = sel ''i'' 0 ''i'' 0,
          getUndoStack = [getCurrentContent es_atomic_second],
          getRedoStack = [],
          mustForceSelection = True\<rparr>"
proof -
  let ?s = "getSelection es_atomic_second" and ?c = "getCurrentContent es_atomic_second"
  have h1: "getStartKey ?s = getEndKey ?s"
    by (simp add: es_atomic_second_def editorStateOf_def sel_def getStartKey_def getEndKey_def)
  have h2: "getStartOffset ?s \<noteq> getEndOffset ?s"
    by (simp add: es_atomic_second_def editorStateOf_def sel_def getStartOffset_def
        getEndOffset_def)
  have h3: "getBlockForKey ?c (getStartKey ?s) = Some block_image"
    by (simp add: es_atomic_second_def editorStateOf_def sel_def getStartKey_def
        getBlockForKey_def block_abc_def block_image_def)
  have h4: "getType block_image = ''atomic''"
    by (simp add: block_image_def)
  have h5: "getBlockBefore ?c (getStartKey ?s) \<noteq> None"
    by (simp add: es_atomic_second_def editorStateOf_def sel_def getStartKey_def
        getBlockBefore_def block_abc_def block_image_def)
  from C3_atomic_cut_after_a_block_forces_selection [OF h1 h2 h3 h4 h5, of example_modules]
  show ?thesis
    by (simp add: example_modules_def example_push_def example_forceSelection_def
        example_removeRange_def es_atomic_second_def editorStateOf_def sel_def
        block_abc_def block_image_def getStartKey_def getEndKey_def getStartOffset_def
        getEndOffset_def Let_def)
qed

subsection \<open>Before the native cut\<close>

text \<open>
  C5. When the selection is not collapsed the handler makes, before it returns and the
  native cut happens, exactly these calls in this order: it asks for the scroll parent of
  the target and for the scroll position of that parent, extracts the fragment of the
  editor state, hands the fragment to \<open>setClipboard\<close>, sets the render guard and sets
  the mode \<open>cut\<close>. The deferred function it schedules (with delay 0) holds the scroll
  position that was read.
\<close>

theorem C5_cut_actions_in_order:
  assumes "\<not> isCollapsed (getSelection (props_editorState this))"
  shows "fst (editOnCut m w this e) =
           [GetScrollParent (target e),
            GetScrollPosition (Style_getScrollParent w (target e)),
            GetFragmentFromSelection (props_editorState this),
            SetClipboard (getFragmentFromSelection m (props_editorState this)),
            SetRenderGuard,
            SetMode ''cut'']
         \<and> (\<exists>d. snd (editOnCut m w this e) = Some d
                \<and> (captured_x d, captured_y d)
                    = getScrollPosition w (Style_getScrollParent w (target e))
                \<and> timeout d = 0)"
  using assms by (simp add: editOnCut_def Let_def split: prod.splits)

theorem C5_witness:
  "\<not> isCollapsed (getSelection (props_editorState \<lparr>props_editorState = es_range\<rparr>)) \<and>
   fst (editOnCut example_modules example_dom \<lparr>props_editorState = es_range\<rparr> \<lparr>target = 1\<rparr>) =
     [GetScrollParent 1, GetScrollPosition (Element 7), GetFragmentFromSelection es_range,
      SetClipboard [\<lparr>getKey = ''a'', getText = ''bc'', getType = ''unstyled''\<rparr>],
      SetRenderGuard, SetMode ''cut'']"
proof -
  have nc: "\<not> isCollapsed (getSelection (props_editorState \<lparr>props_editorState = es_range\<rparr>))"
    by (simp add: es_range_def editorStateOf_def sel_def isCollapsed_def)
  have frag: "example_getFragment es_range
                = [\<lparr>getKey = ''a'', getText = ''bc'', getType = ''unstyled''\<rparr>]"
    by (simp add: example_getFragment_def es_range_def editorStateOf_def sel_def
        block_abc_def getStartKey_def getEndKey_def getStartOffset_def getEndOffset_def
        Let_def)
  from C5_cut_actions_in_order [OF nc, of example_modules example_dom "\<lparr>target = 1\<rparr>"] nc
  show ?thesis
    by (simp add: frag example_modules_def example_dom_def)
qed

text \<open>
  C9. The editor state that the deferred function commits depends only on the editor
  state the handler read when the cut event fired. Two runs that start from the same
  editor state commit the same single state, whatever the event, the document and its
  scroll positions were, and whatever editor state the component holds when the deferred
  function runs.
\<close>

theorem C9_committed_state_depends_on_snapshot_only:
  assumes "props_editorState thisA = props_editorState thisB"
    and "snd (editOnCut m wA thisA eA) = Some dA"
    and "snd (editOnCut m wB thisB eB) = Some dB"
  shows "committed (editOnCut_deferred m laterA dA)
           = committed (editOnCut_deferred m laterB dB)
         \<and> length (committed (editOnCut_deferred m laterA dA)) = 1"
proof -
  have "captured_editorState dA = captured_editorState dB"
    using assms by (simp add: editOnCut_captures_editorState)
  then show ?thesis
    by (simp add: committed_editOnCut_deferred removeFragment_eq)
qed

theorem C9_witness:
  "committed (editOnCut_deferred example_modules \<lparr>props_editorState = es_caret\<rparr>
      \<lparr>captured_editorState = es_range, captured_x = 0, captured_y = 40, timeout = 0\<rparr>)
   = committed (editOnCut_deferred example_modules \<lparr>props_editorState = es_atomic_first\<rparr>
      \<lparr>captured_editorState = es_range, captured_x = 0, captured_y = 100, timeout = 0\<rparr>)"
proof -
  have nc: "\<not> isCollapsed (getSelection es_range)"
    by (simp add: es_range_def editorStateOf_def sel_def isCollapsed_def)
  have a: "snd (editOnCut example_modules example_dom \<lparr>props_editorState = es_range\<rparr>
                  \<lparr>target = 1\<rparr>)
             = Some \<lparr>captured_editorState = es_range, captured_x = 0, captured_y = 40,
                     timeout = 0\<rparr>"
    using nc by (simp add: editOnCut_def example_dom_def Let_def)
  have b: "snd (editOnCut example_modules example_dom \<lparr>props_editorState = es_range\<rparr>
                  \<lparr>target = 2\<rparr>)
             = Some \<lparr>captured_editorState = es_range, captured_x = 0, captured_y = 100,
                     timeout = 0\<rparr>"
    using nc by (simp add: editOnCut_def example_dom_def Let_def)
  from C9_committed_state_depends_on_snapshot_only [OF refl a b]
  show ?thesis by simp
qed


section \<open>Properties of the block component\<close>

text \<open>
  C4. \<open>shouldComponentUpdate\<close> answers true exactly when one of these holds: the
  block is another object, the tree is another object, the text alignment changed,
  the read-only flag changed, the direction changed, the value of \<open>isEditing\<close> (focus,
  collapsed, start key on this block) differs between the current and the next props, or
  the key of the next block is the anchor key or the focus key of the next selection
  while the next props ask for a forced selection.
\<close>

theorem C4_shouldComponentUpdate_iff:
  "shouldComponentUpdate prev nxt \<longleftrightarrow>
     address (props_block prev) \<noteq> address (props_block nxt)
   \<or> address (props_tree prev) \<noteq> address (props_tree nxt)
   \<or> props_textAlign prev \<noteq> props_textAlign nxt
   \<or> props_readOnly prev \<noteq> props_readOnly nxt
   \<or> props_direction prev \<noteq> props_direction nxt
   \<or> (getHasFocus (props_selection prev) \<and> isCollapsed (props_selection prev)
        \<and> getStartKey (props_selection prev) = getKey (contents (props_block prev)))
      \<noteq> (getHasFocus (props_selection nxt) \<and> isCollapsed (props_selection nxt)
        \<and> getStartKey (props_selection nxt) = getKey (contents (props_block nxt)))
   \<or> ((getKey (contents (props_block nxt)) = getAnchorKey (props_selection nxt)
         \<or> getKey (contents (props_block nxt)) = getFocusKey (props_selection nxt))
       \<and> props_forceSelection nxt)"
  unfolding shouldComponentUpdate_def updateTailCR_def isBlockOnSelectionEdge_def Let_def
  by auto

theorem C4_witness:
  "shouldComponentUpdate props_abc props_abc_elsewhere \<and>
   \<not> shouldComponentUpdate props_abc props_abc"
  using C4_shouldComponentUpdate_iff [of props_abc props_abc_elsewhere]
    C4_shouldComponentUpdate_iff [of props_abc props_abc]
  by (simp add: props_abc_def props_abc_elsewhere_def propsOf_def sel_def block_abc_def
      isCollapsed_def getStartKey_def)

subsection \<open>What rendering returns\<close>

text \<open>
  A successful render returns one child per leaf set of the tree, in order, and the
  leaves of every child are the leaf elements built for its leaf set.
\<close>

lemma renderLeafSet_leaves:
  "renderLeafSet env p ii ls = Inr c \<Longrightarrow> leavesOf c = leavesFor env p ii ls"
  by (auto simp: renderLeafSet_def leavesFor_def Let_def
      split: option.splits list.splits)

lemma renderLeafSet_ungrouped:
  assumes "decoratorKey ls = None \<or> props_decorator p = None \<or>
           (\<exists>k d. decoratorKey ls = Some k \<and> props_decorator p = Some d
                   \<and> getComponentForKey d k = None)"
  shows "renderLeafSet env p ii ls = Inr (Ungrouped (leavesFor env p ii ls))"
  using assms
  by (auto simp: renderLeafSet_def leavesFor_def Let_def split: option.splits)

lemma collect_Inr: "collect rs = Inr xs \<Longrightarrow> rs = map Inr xs"
  by (induction rs arbitrary: xs rule: collect.induct) (auto split: sum.splits)

lemma renderChildren_nth:
  assumes "renderChildren env p = Inr cs"
  shows "length cs = length (contents (props_tree p))"
    and "ii < length (contents (props_tree p)) \<Longrightarrow>
           renderLeafSet env p ii (contents (props_tree p) ! ii) = Inr (cs ! ii)"
proof -
  let ?t = "contents (props_tree p)"
  have eq: "map (\<lambda>(ii, ls). renderLeafSet env p ii ls) (zip [0..<length ?t] ?t) = map Inr cs"
    using assms by (simp add: renderChildren_def collect_Inr)
  from arg_cong [OF eq, of length] show len: "length cs = length ?t" by simp
  assume lt: "ii < length ?t"
  from arg_cong [OF eq, of "\<lambda>xs. xs ! ii"] lt len
  show "renderLeafSet env p ii (?t ! ii) = Inr (cs ! ii)" by simp
qed

lemma renderChildren_leaves:
  assumes "renderChildren env p = Inr cs"
  shows "map leavesOf cs =
           map (\<lambda>(ii, ls). leavesFor env p ii ls)
             (zip [0..<length (contents (props_tree p))] (contents (props_tree p)))"
proof (rule nth_equalityI)
  show "length (map leavesOf cs) = length (map (\<lambda>(ii, ls). leavesFor env p ii ls)
             (zip [0..<length (contents (props_tree p))] (contents (props_tree p))))"
    using renderChildren_nth(1) [OF assms] by simp
next
  fix i assume "i < length (map leavesOf cs)"
  then have lt: "i < length (contents (props_tree p))"
    using renderChildren_nth(1) [OF assms] by simp
  from renderChildren_nth(2) [OF assms lt] renderLeafSet_leaves
  have "leavesOf (cs ! i) = leavesFor env p i (contents (props_tree p) ! i)" by blast
  with lt renderChildren_nth(1) [OF assms]
  show "map leavesOf cs ! i = map (\<lambda>(ii, ls). leavesFor env p ii ls)
             (zip [0..<length (contents (props_tree p))] (contents (props_tree p))) ! i"
    by simp
qed

lemma renderedLeaves_are_renderLeaf:
  assumes "renderChildren env p = Inr cs" and "l \<in> set (renderedLeaves cs)"
  shows "\<exists>ii a b jj lf. l = renderLeaf env p ii a b jj lf"
  using assms(2) unfolding renderedLeaves_def renderChildren_leaves [OF assms(1)]
  by (fastforce simp: leavesFor_def)

lemma length_renderedLeaves:
  assumes "renderChildren env p = Inr cs"
  shows "length (renderedLeaves cs) = sum_list (map (\<lambda>ls. length (leaves ls)) (contents (props_tree p)))"
proof -
  have "map length (map (\<lambda>(ii, ls). leavesFor env p ii ls) (zip [0..<length xs] xs))
          = map (\<lambda>ls. length (leaves ls)) xs" for xs
    by (rule nth_equalityI) (simp_all add: leavesFor_def)
  then show ?thesis
    unfolding renderedLeaves_def renderChildren_leaves [OF assms]
    by (simp add: length_concat)
qed

lemma Inr_projr: "\<not> isl r \<Longrightarrow> r = Inr (projr r)"
  by (cases r) simp_all

lemma map_all_same: "\<forall>x \<in> set xs. f x = c \<Longrightarrow> map f xs = replicate (length xs) c"
  by (induction xs) simp_all

text \<open>
  C6. In a successful render, the child of a leaf set that has no decorator key, or that
  is rendered with no decorator configured, or for whose key the decorator has no
  component, is the list of its leaf elements themselves, with no decorator element
  around them; the three cases give the same result.
\<close>

theorem C6_undecorated_leaf_sets_render_ungrouped:
  assumes "renderChildren env p = Inr cs"
    and "ii < length (contents (props_tree p))"
    and "ls = contents (props_tree p) ! ii"
    and "decoratorKey ls = None \<or> props_decorator p = None \<or>
         (\<exists>k d. decoratorKey ls = Some k \<and> props_decorator p = Some d
                 \<and> getComponentForKey d k = None)"
  shows "cs ! ii =
           Ungrouped
             (map (\<lambda>(jj, lf). renderLeaf env p ii (int (length (contents (props_tree p))) - 1)
                               (int (length (leaves ls)) - 1) jj lf)
                (zip [0..<length (leaves ls)] (leaves ls)))"
proof -
  have "renderLeafSet env p ii ls = Inr (cs ! ii)"
    using renderChildren_nth(2) [OF assms(1,2)] assms(3) by simp
  with renderLeafSet_ungrouped [OF assms(4), of env ii]
  show ?thesis by (simp add: leavesFor_def)
qed

theorem C6_witness:
  "projr (renderChildren example_env props_abc) ! 0 =
     Ungrouped [renderLeaf example_env props_abc 0 1 0 0 \<lparr>leaf_start = 0, leaf_end = 1\<rparr>]"
proof -
  have r: "renderChildren example_env props_abc
             = Inr (projr (renderChildren example_env props_abc))"
    by (rule Inr_projr) code_simp
  have t: "contents (props_tree props_abc) = tree_abc"
    by (simp add: props_abc_def propsOf_def)
  have i: "0 < length (contents (props_tree props_abc))"
    by (simp add: t tree_abc_def)
  have k: "decoratorKey (tree_abc ! 0) = None \<or> props_decorator props_abc = None \<or>
           (\<exists>k d. decoratorKey (tree_abc ! 0) = Some k \<and> props_decorator props_abc = Some d
                   \<and> getComponentForKey d k = None)"
    by (simp add: tree_abc_def)
  from C6_undecorated_leaf_sets_render_ungrouped [OF r i t [THEN arg_cong, of "\<lambda>xs. xs ! 0", symmetric] k]
  show ?thesis by (simp add: t tree_abc_def)
qed

text \<open>
  C7. A successful render builds one leaf element for every leaf of the tree, and on
  each of them \<open>isEditing\<close> is: the selection of the props has focus, is collapsed, and
  its start key is the key of the block. The value is computed from the props of the
  render itself.
\<close>

theorem C7_isEditing_from_current_selection:
  assumes "renderChildren env p = Inr cs"
  shows "length (renderedLeaves cs)
           = sum_list (map (\<lambda>ls. length (leaves ls)) (contents (props_tree p)))
         \<and> (\<forall>l \<in> set (renderedLeaves cs).
              isEditing l \<longleftrightarrow>
                getHasFocus (props_selection p) \<and> isCollapsed (props_selection p)
                \<and> getStartKey (props_selection p) = getKey (contents (props_block p)))"
proof -
  have "isEditing l \<longleftrightarrow>
          getHasFocus (props_selection p) \<and> isCollapsed (props_selection p)
          \<and> getStartKey (props_selection p) = getKey (contents (props_block p))"
    if "l \<in> set (renderedLeaves cs)" for l
  proof -
    from renderedLeaves_are_renderLeaf [OF assms that]
    obtain ii a b jj lf where "l = renderLeaf env p ii a b jj lf" by blast
    then show ?thesis by (simp add: renderLeaf_def Let_def)
  qed
  with length_renderedLeaves [OF assms] show ?thesis by blast
qed

theorem C7_witness:
  "map isEditing (renderedLeaves (projr (renderChildren example_env props_abc)))
     = [True, True, True]"
proof -
  have r: "renderChildren example_env props_abc
             = Inr (projr (renderChildren example_env props_abc))"
    by (rule Inr_projr) code_simp
  have n: "sum_list (map (\<lambda>ls. length (leaves ls)) (contents (props_tree props_abc))) = 3"
    by (simp add: props_abc_def propsOf_def tree_abc_def)
  have e: "getHasFocus (props_selection props_abc) \<and> isCollapsed (props_selection props_abc)
           \<and> getStartKey (props_selection props_abc) = getKey (contents (props_block props_abc))"
    by (simp add: props_abc_def propsOf_def sel_def block_abc_def isCollapsed_def
        getStartKey_def)
  from C7_isEditing_from_current_selection [OF r] n e
  have "length (renderedLeaves (projr (renderChildren example_env props_abc))) = 3"
    and "\<forall>l \<in> set (renderedLeaves (projr (renderChildren example_env props_abc))).
           isEditing l = True"
    by simp_all
  from map_all_same [OF this(2)] this(1) show ?thesis
    by (simp add: numeral_3_eq_3)
qed

text \<open>
  The claim C8 as stated fails in a read-only editor: the block is empty and the flag
  \<open>isEmpty\<close> of its leaf is false.
\<close>

theorem C8_counterexample:
  "length (getText (contents (props_block props_empty_readOnly))) = 0 \<and>
   map_sum id (map isEmpty \<circ> renderedLeaves) (renderChildren example_env props_empty_readOnly)
     = Inr [False]"
  by code_simp

text \<open>
  C8 (amended). A successful render builds one leaf element for every leaf of the tree,
  and on each of them \<open>isEmpty\<close> is true exactly when the text of the block has length
  zero and the props are not read-only.
\<close>

theorem C8_isEmpty_needs_editable_block:
  assumes "renderChildren env p = Inr cs"
  shows "length (renderedLeaves cs)
           = sum_list (map (\<lambda>ls. length (leaves ls)) (contents (props_tree p)))
         \<and> (\<forall>l \<in> set (renderedLeaves cs).
              isEmpty l \<longleftrightarrow>
                length (getText (contents (props_block p))) = 0 \<and> \<not> props_readOnly p)"
proof -
  have "isEmpty l \<longleftrightarrow>
          length (getText (contents (props_block p))) = 0 \<and> \<not> props_readOnly p"
    if "l \<in> set (renderedLeaves cs)" for l
  proof -
    from renderedLeaves_are_renderLeaf [OF assms that]
    obtain ii a b jj lf where "l = renderLeaf env p ii a b jj lf" by blast
    then show ?thesis by (simp add: renderLeaf_def Let_def)
  qed
  with length_renderedLeaves [OF assms] show ?thesis by blast
qed

theorem C8_witness:
  "map isEmpty (renderedLeaves (projr (renderChildren example_env
      (props_empty_readOnly\<lparr>props_readOnly := False\<rparr>)))) = [True]"
proof -
  let ?p = "props_empty_readOnly\<lparr>props_readOnly := False\<rparr>"
  have r: "renderChildren example_env ?p = Inr (projr (renderChildren example_env ?p))"
    by (rule Inr_projr) code_simp
  have n: "sum_list (map (\<lambda>ls. length (leaves ls)) (contents (props_tree ?p))) = 1"
    by (simp add: props_empty_readOnly_def propsOf_def)
  have e: "length (getText (contents (props_block ?p))) = 0 \<and> \<not> props_readOnly ?p"
    by (simp add: props_empty_readOnly_def propsOf_def)
  from C8_isEmpty_needs_editable_block [OF r] n e
  have "length (renderedLeaves (projr (renderChildren example_env ?p))) = 1"
    and "\<forall>l \<in> set (renderedLeaves (projr (renderChildren example_env ?p))). isEmpty l = True"
    by simp_all
  from map_all_same [OF this(2)] this(1) show ?thesis by simp
qed

text \<open>
  C10. On mount the component makes a scroll call only when the selection has focus, the
  end key of the selection is the key of the block, and the bottom of the block lies
  strictly below the visible bottom of the scroll parent (of the viewport, when the
  scroll parent is the window). It then makes exactly one call, which moves the vertical
  position down by the overshoot plus 10 and leaves the horizontal position as it is. In
  every other case it makes no scroll call; no call it makes moves the position up.
\<close>

theorem C10_mount_scrolls_down_only_to_reveal_block:
  fixes w :: dom and this :: "'o DraftEditorBlock"
  defines "s \<equiv> props_selection (props this)"
  defines "blockNode \<equiv> findDOMNode this"
  defines "parent \<equiv> Style_getScrollParent w blockNode"
  defines "pos \<equiv> getScrollPosition w parent"
  defines "blockBottom \<equiv>
    (case parent of
       Window \<Rightarrow> pos_y (getElementPosition w blockNode)
                 + pos_height (getElementPosition w blockNode)
     | Element sp \<Rightarrow> offsetHeight w blockNode + offsetTop w blockNode)"
  defines "visibleBottom \<equiv>
    (case parent of
       Window \<Rightarrow> dim_height (getViewportDimensions w)
     | Element sp \<Rightarrow> offsetHeight w sp + snd pos)"
  defines "scrollTop \<equiv> (case parent of Window \<Rightarrow> snd pos | Element sp \<Rightarrow> Scroll_getTop w sp)"
  shows "componentDidMount w this =
           (if getHasFocus s \<and> getEndKey s = getKey (contents (props_block (props this)))
               \<and> visibleBottom < blockBottom
            then [case parent of
                    Window \<Rightarrow>
                      Window_scrollTo (fst pos) (scrollTop + (blockBottom - visibleBottom) + 10)
                  | Element sp \<Rightarrow>
                      Scroll_setTop sp (scrollTop + (blockBottom - visibleBottom) + 10)]
            else [])
         \<and> (\<forall>x y. Window_scrollTo x y \<in> set (componentDidMount w this)
                  \<longrightarrow> x = fst pos \<and> snd pos < y)
         \<and> (\<forall>n y. Scroll_setTop n y \<in> set (componentDidMount w this)
                  \<longrightarrow> Scroll_getTop w n < y)"
  by (auto simp add: componentDidMount_def s_def blockNode_def parent_def pos_def
      blockBottom_def visibleBottom_def scrollTop_def SCROLL_BUFFER_def Let_def
      split: scrollable.splits if_splits)

theorem C10_witness:
  "componentDidMount example_dom \<lparr>props = props_abc, findDOMNode = 2\<rparr> = [Window_scrollTo 0 140] \<and>
   componentDidMount example_dom \<lparr>props = props_abc, findDOMNode = 1\<rparr> = [Scroll_setTop 7 90] \<and>
   componentDidMount example_dom \<lparr>props = props_abc_elsewhere, findDOMNode = 1\<rparr> = []"
  using C10_mount_scrolls_down_only_to_reveal_block
          [of example_dom "\<lparr>props = props_abc, findDOMNode = 2\<rparr>", THEN conjunct1]
    C10_mount_scrolls_down_only_to_reveal_block
          [of example_dom "\<lparr>props = props_abc, findDOMNode = 1\<rparr>", THEN conjunct1]
    C10_mount_scrolls_down_only_to_reveal_block
          [of example_dom "\<lparr>props = props_abc_elsewhere, findDOMNode = 1\<rparr>", THEN conjunct1]
  by (simp add: example_dom_def props_abc_def props_abc_elsewhere_def propsOf_def sel_def
      block_abc_def getEndKey_def)

end
